theory Spec2Isabelle
  imports Main "HOL-Library.AList" "HOL-Library.Char_ord" "HOL-Library.List_Lexorder"
begin

section \<open>Values, exceptions and the heap of dictionaries\<close>

text \<open>
  The configuration container of \<^verbatim>\<open>config.py\<close>: class \<^verbatim>\<open>Config(dict)\<close> with its loaders
  and \<^verbatim>\<open>get_namespace\<close>, and the descriptor \<^verbatim>\<open>ConfigAttribute\<close>.

  Python values are a datatype. A string is a list of characters, each a code point
  below 256. A dictionary is an association list in insertion order
  with string keys (the keys of a JSON object and of keyword arguments are strings; the
  store of the specification maps strings to values). Dictionaries are objects with an
  identity: they live in a heap, a list of dictionaries addressed by position, so that
  "mutated in place" and "a fresh mapping" are statements about addresses.
\<close>

datatype pyval =
    PyNone
  | PyBool bool
  | PyInt int
  | PyStr string
  | PyList "pyval list"
  | PyDict "(string \<times> pyval) list"
  | PyRef nat
  | PyOpaque string

type_synonym dict = "(string \<times> pyval) list"
type_synonym addr = nat
type_synonym heap = "dict list"

text \<open>
  Exceptions, by their Python class. \<open>IOError\<close> carries \<open>errno\<close> and \<open>strerror\<close>;
  \<open>Exception\<close> carries the path of the message \<^verbatim>\<open>f'{filepath} is not exists'\<close>;
  \<open>RuntimeError\<close> the variable name of its message; \<open>TypeError\<close>, \<open>KeyError\<close> and
  \<open>NameError\<close> what their message names; \<open>OtherError\<close> is any exception class that is
  not an \<open>IOError\<close> (a \<^verbatim>\<open>JSONDecodeError\<close>, a \<^verbatim>\<open>SyntaxError\<close>, ...).
\<close>

datatype exn =
    Exception string
  | RuntimeError string
  | TypeError string
  | KeyError string
  | NameError string
  | AttributeError string
  | IOError nat string
  | OtherError string

type_synonym 'a outcome = "(exn + 'a) \<times> heap"

definition ENOENT :: nat where "ENOENT = 2"
definition EACCES :: nat where "EACCES = 13"
definition EISDIR :: nat where "EISDIR = 21"

text \<open>\<^verbatim>\<open>self[key] = value\<close> on the dictionary at address \<open>a\<close>: an existing key keeps its
  position and gets the new value, a new key is appended.\<close>

definition setitem :: "heap \<Rightarrow> addr \<Rightarrow> string \<Rightarrow> pyval \<Rightarrow> heap" where
  "setitem h a key v = h[a := AList.update key v (h ! a)]"

text \<open>\<^verbatim>\<open>d[key]\<close>: raises \<^verbatim>\<open>KeyError\<close> for an absent key.\<close>

definition getitem :: "heap \<Rightarrow> addr \<Rightarrow> string \<Rightarrow> exn + pyval" where
  "getitem h a key = (case map_of (h ! a) key of None \<Rightarrow> Inl (KeyError key) | Some v \<Rightarrow> Inr v)"

text \<open>A new dictionary object: its address is the next free position.\<close>

definition new_dict :: "heap \<Rightarrow> dict \<Rightarrow> addr \<times> heap" where
  "new_dict h d = (length h, h @ [d])"

text \<open>\<^verbatim>\<open>Config(defaults=None)\<close>: \<^verbatim>\<open>dict.__init__(self, defaults or {})\<close>.\<close>

definition Config_init :: "heap \<Rightarrow> dict option \<Rightarrow> addr \<times> heap" where
  "Config_init h defaults =
     new_dict h (case defaults of None \<Rightarrow> [] | Some d \<Rightarrow> (if d = [] then [] else d))"

section \<open>from_mapping\<close>

text \<open>
  A positional argument of \<^verbatim>\<open>from_mapping\<close>, as the method sees it: an object with an
  \<^verbatim>\<open>items\<close> attribute, given by the pairs \<^verbatim>\<open>items()\<close> yields, or an object without one,
  which the loop iterates directly: it yields pairs and then either ends or raises (an
  element that does not unpack into two, or an object that is not iterable at all).
\<close>

datatype mapping_arg =
    HasItems dict
  | NoItems dict "exn option"

text \<open>The inner loop \<^verbatim>\<open>for (key, value) in mapping: self[key] = value\<close>.\<close>

fun assign_pairs :: "heap \<Rightarrow> addr \<Rightarrow> dict \<Rightarrow> heap" where
  "assign_pairs h self [] = h"
| "assign_pairs h self ((key, v) # ps) = assign_pairs (setitem h self key v) self ps"

text \<open>The outer loop \<^verbatim>\<open>for mapping in mappings\<close>; an iterable that raises ends the call
  with the store as the pairs before it left it.\<close>

fun assign_mappings :: "heap \<Rightarrow> addr \<Rightarrow> (dict \<times> exn option) list \<Rightarrow> exn option \<times> heap" where
  "assign_mappings h self [] = (None, h)"
| "assign_mappings h self ((ps, err) # ms) =
     (let h' = assign_pairs h self ps in
      case err of Some e \<Rightarrow> (Some e, h') | None \<Rightarrow> assign_mappings h' self ms)"

fun iteration_of :: "mapping_arg \<Rightarrow> dict \<times> exn option" where
  "iteration_of (HasItems ps) = (ps, None)"
| "iteration_of (NoItems ps err) = (ps, err)"

definition merge_mappings :: "heap \<Rightarrow> addr \<Rightarrow> (dict \<times> exn option) list \<Rightarrow> pyval outcome" where
  "merge_mappings h self mappings =
     (case assign_mappings h self mappings of
        (Some e, h') \<Rightarrow> (Inl e, h')
      | (None, h') \<Rightarrow> (Inr (PyBool True), h'))"

text \<open>\<^verbatim>\<open>from_mapping(self, *mapping, **kwargs)\<close>: one positional argument is queued for the
  loop, more than one raise \<^verbatim>\<open>TypeError\<close> before anything is stored; the keyword
  arguments are queued last; the call returns \<^verbatim>\<open>True\<close>.\<close>

definition from_mapping :: "heap \<Rightarrow> addr \<Rightarrow> mapping_arg list \<Rightarrow> dict \<Rightarrow> pyval outcome" where
  "from_mapping h self mapping kwargs =
     (if length mapping = 1
      then merge_mappings h self [iteration_of (mapping ! 0), (kwargs, None)]
      else if 1 < length mapping
      then (Inl (TypeError ''expected at most 1 positional argument''), h)
      else merge_mappings h self [(kwargs, None)])"

text \<open>
  For stating what the loops leave behind: the dictionary after the pairs were stored
  into it one by one, in order.
\<close>

fun stored :: "dict \<Rightarrow> dict \<Rightarrow> dict" where
  "stored d [] = d"
| "stored d ((key, v) # ps) = stored (AList.update key v d) ps"





section \<open>from_object\<close>

text \<open>
  \<^verbatim>\<open>dir(obj)\<close> and \<^verbatim>\<open>getattr(obj, key)\<close> may run code of the object: a \<^verbatim>\<open>__dir__\<close> or
  \<^verbatim>\<open>__getattr__\<close> hook, a property. Such a call is an effect: from the heap it gives a
  result or an exception, and the heap as it leaves it.

  An object is given as \<^verbatim>\<open>from_object\<close> meets it: the effect of \<^verbatim>\<open>dir(obj)\<close>, which lists
  names, and with each listed name the effect of \<^verbatim>\<open>getattr\<close> for it.
\<close>

type_synonym 'a effect = "heap \<Rightarrow> 'a outcome"
type_synonym pyobject = "(string \<times> pyval effect) list effect"

text \<open>\<^verbatim>\<open>for key in dir(obj): self[key] = getattr(obj, key)\<close>\<close>

fun from_object_loop :: "heap \<Rightarrow> addr \<Rightarrow> (string \<times> pyval effect) list \<Rightarrow> pyval outcome" where
  "from_object_loop h self [] = (Inr PyNone, h)"
| "from_object_loop h self ((key, getattr) # keys) =
     (case getattr h of
        (Inl e, h1) \<Rightarrow> (Inl e, h1)
      | (Inr v, h1) \<Rightarrow> from_object_loop (setitem h1 self key v) self keys)"

definition from_object :: "heap \<Rightarrow> addr \<Rightarrow> pyobject \<Rightarrow> pyval outcome" where
  "from_object h self obj =
     (case obj h of
        (Inl e, h1) \<Rightarrow> (Inl e, h1)
      | (Inr keys, h1) \<Rightarrow> from_object_loop h1 self keys)"

text \<open>
  An object whose attributes are plain data: \<^verbatim>\<open>dir\<close> lists exactly the names of the given
  entries, in their order, \<^verbatim>\<open>getattr\<close> gives their values, and neither touches the heap.
\<close>

definition data_object :: "dict \<Rightarrow> pyobject" where
  "data_object entries =
     (\<lambda>h. (Inr (map (\<lambda>(key, v). (key, (\<lambda>h'. (Inr v, h')))) entries), h))"

section \<open>The file loaders\<close>

text \<open>
  The operating system as the loaders read it: \<^verbatim>\<open>os.environ\<close> and the file system. A path
  names nothing, a directory, a regular file with its content, or a file whose opening or
  reading fails with the given \<open>errno\<close> and \<open>strerror\<close>.
\<close>

datatype node =
    Directory
  | RegularFile string
  | Unreadable nat string

record world =
  environ :: "string \<Rightarrow> string option"
  files :: "string \<Rightarrow> node option"

definition path_exists :: "world \<Rightarrow> string \<Rightarrow> bool" where
  "path_exists w filepath = (files w filepath \<noteq> None)"

text \<open>\<^verbatim>\<open>with open(filepath) as f: f.read()\<close>\<close>

definition open_read :: "world \<Rightarrow> string \<Rightarrow> exn + string" where
  "open_read w filepath =
     (case files w filepath of
        None \<Rightarrow> Inl (IOError ENOENT ''No such file or directory'')
      | Some Directory \<Rightarrow> Inl (IOError EISDIR ''Is a directory'')
      | Some (Unreadable errno strerror) \<Rightarrow> Inl (IOError errno strerror)
      | Some (RegularFile content) \<Rightarrow> Inr content)"

text \<open>
  The handler both file loaders share:
  \<^verbatim>\<open>except IOError as e: if silent and e.errno in (errno.ENOENT, errno.EISDIR): return False\<close>,
  otherwise \<open>strerror\<close> is rewritten and the exception raised again. An exception of
  another class is not caught.
\<close>

definition load_failed :: "exn \<Rightarrow> bool \<Rightarrow> heap \<Rightarrow> pyval outcome" where
  "load_failed e silent h =
     (case e of
        IOError errno strerror \<Rightarrow>
          (if silent \<and> (errno = ENOENT \<or> errno = EISDIR)
           then (Inr (PyBool False), h)
           else (Inl (IOError errno (''Unable to load configuration file ('' @ strerror @ '')'')), h))
      | _ \<Rightarrow> (Inl e, h))"

text \<open>The namespace of \<^verbatim>\<open>types.ModuleType(name)\<close>.\<close>

definition module_new :: "string \<Rightarrow> dict" where
  "module_new nm =
     [(''__name__'', PyStr nm), (''__doc__'', PyNone), (''__package__'', PyNone),
      (''__loader__'', PyNone), (''__spec__'', PyNone)]"

text \<open>
  \<^verbatim>\<open>from_pyfile(cls, filepath, silent=False)\<close>, a class method. \<open>exec_code\<close> stands for
  \<^verbatim>\<open>exec(compile(source, filepath, 'exec'), d.__dict__)\<close>, which runs whatever the file
  holds: from the source, the file name, the module's namespace and the heap it gives
  the exception the compilation or the run raised, or the module object \<^verbatim>\<open>d\<close> after the
  run (as \<^verbatim>\<open>dir\<close> and \<^verbatim>\<open>getattr\<close> answer for it, a module-level \<^verbatim>\<open>__dir__\<close> included), and
  in both cases the heap as the run left it: the file's code may write into any store
  it can reach. The method receives the class, never an instance: it builds a new
  \<^verbatim>\<open>cls()\<close>, fills it with \<^verbatim>\<open>from_object\<close> and returns it.
\<close>

definition from_pyfile ::
  "(string \<Rightarrow> string \<Rightarrow> dict \<Rightarrow> pyobject effect) \<Rightarrow> world \<Rightarrow> heap \<Rightarrow> string \<Rightarrow> bool \<Rightarrow> pyval outcome" where
  "from_pyfile exec_code w h filepath silent =
     (if \<not> path_exists w filepath then (Inl (Exception filepath), h)
      else
        (let d = AList.update ''__file__'' (PyStr filepath) (module_new ''config'') in
         case (case open_read w filepath of
                 Inl e \<Rightarrow> (Inl e, h)
               | Inr source \<Rightarrow> exec_code source filepath d h) of
           (Inl e, h0) \<Rightarrow> load_failed e silent h0
         | (Inr m, h0) \<Rightarrow>
             (let (cfg, h1) = Config_init h0 None in
              case from_object h1 cfg m of
                (Inl e, h2) \<Rightarrow> (Inl e, h2)
              | (Inr _, h2) \<Rightarrow> (Inr (PyRef cfg), h2))))"

text \<open>
  \<^verbatim>\<open>from_json(cls, filepath, silent=False)\<close>, a class method. \<open>json_loads\<close> stands for
  \<^verbatim>\<open>json.loads\<close>: it gives the parsed document as the argument \<^verbatim>\<open>from_mapping\<close> receives
  (a JSON object has \<^verbatim>\<open>items\<close>), or the exception the parser raised.
\<close>

definition from_json ::
  "(string \<Rightarrow> exn + mapping_arg) \<Rightarrow> world \<Rightarrow> heap \<Rightarrow> string \<Rightarrow> bool \<Rightarrow> pyval outcome" where
  "from_json json_loads w h filepath silent =
     (if \<not> path_exists w filepath then (Inl (Exception filepath), h)
      else
        (case (case open_read w filepath of
                 Inl e \<Rightarrow> Inl e
               | Inr content \<Rightarrow> json_loads content) of
           Inl e \<Rightarrow> load_failed e silent h
         | Inr obj \<Rightarrow>
             (let (cfg, h1) = Config_init h None in
              case from_mapping h1 cfg [obj] [] of
                (Inl e, h2) \<Rightarrow> (Inl e, h2)
              | (Inr _, h2) \<Rightarrow> (Inr (PyRef cfg), h2))))"

text \<open>
  \<^verbatim>\<open>from_envvar(self, variable_name, silent=False)\<close>, a class method whose first parameter
  is named \<^verbatim>\<open>self\<close>. Its last line is \<^verbatim>\<open>return cls.from_pyfile(rv, silent=silent)\<close>: the
  name \<^verbatim>\<open>cls\<close> is bound neither in the method nor in the module, so evaluating it raises
  \<^verbatim>\<open>NameError\<close> before \<^verbatim>\<open>from_pyfile\<close> is reached.
\<close>

definition from_envvar :: "world \<Rightarrow> heap \<Rightarrow> string \<Rightarrow> bool \<Rightarrow> pyval outcome" where
  "from_envvar w h variable_name silent =
     (let rv = environ w variable_name in
      if rv = None \<or> rv = Some []
      then (if silent then (Inr (PyBool False), h) else (Inl (RuntimeError variable_name), h))
      else (Inl (NameError ''cls''), h))"

section \<open>get_namespace\<close>

text \<open>
  \<^verbatim>\<open>str.lower\<close>, character by character. On the code points below 256 it moves the
  letters \<^verbatim>\<open>A\<close> to \<^verbatim>\<open>Z\<close> (65 to 90) and the Latin-1 capitals U+00C0 to U+00DE other than
  the multiplication sign U+00D7 (192 to 222 without 215) up by 32, and keeps every other
  character.
\<close>

definition lower_char :: "char \<Rightarrow> char" where
  "lower_char c =
     (let n = (of_char c :: nat) in
      if (65 \<le> n \<and> n \<le> 90) \<or> (192 \<le> n \<and> n \<le> 222 \<and> n \<noteq> 215)
      then char_of (n + 32) else c)"

definition lower :: "string \<Rightarrow> string" where
  "lower s = map lower_char s"

definition startswith :: "string \<Rightarrow> string \<Rightarrow> bool" where
  "startswith k namespace = (take (length namespace) k = namespace)"

text \<open>The loop over \<^verbatim>\<open>six.iteritems(self)\<close>, filling the dictionary at \<open>rv\<close>.\<close>

fun get_namespace_loop :: "heap \<Rightarrow> addr \<Rightarrow> string \<Rightarrow> bool \<Rightarrow> bool \<Rightarrow> dict \<Rightarrow> heap" where
  "get_namespace_loop h rv namespace lowercase trim_namespace [] = h"
| "get_namespace_loop h rv namespace lowercase trim_namespace ((k, v) # items) =
     (if \<not> startswith k namespace
      then get_namespace_loop h rv namespace lowercase trim_namespace items
      else
        (let key = (if trim_namespace then drop (length namespace) k else k);
             key = (if lowercase then lower key else key)
         in get_namespace_loop (setitem h rv key v) rv namespace lowercase trim_namespace items))"

text \<open>\<^verbatim>\<open>get_namespace(self, namespace, lowercase=True, trim_namespace=True)\<close>: \<^verbatim>\<open>rv = {}\<close> is a
  new dictionary; the call returns its address.\<close>

definition get_namespace :: "heap \<Rightarrow> addr \<Rightarrow> string \<Rightarrow> bool \<Rightarrow> bool \<Rightarrow> addr \<times> heap" where
  "get_namespace h self namespace lowercase trim_namespace =
     (let (rv, h1) = new_dict h [] in
      (rv, get_namespace_loop h1 rv namespace lowercase trim_namespace (h1 ! self)))"

text \<open>
  The extraction in the words of the specification: of the entries whose key starts with
  the prefix, in the store's order, the key with the prefix trimmed if \<open>trim_namespace\<close>
  and then lowercased if \<open>lowercase\<close>, with the entry's value.
\<close>

definition result_key :: "string \<Rightarrow> bool \<Rightarrow> bool \<Rightarrow> string \<Rightarrow> string" where
  "result_key namespace lowercase trim_namespace k =
     (let trimmed = (if trim_namespace then drop (length namespace) k else k)
      in if lowercase then lower trimmed else trimmed)"

definition selected :: "string \<Rightarrow> bool \<Rightarrow> bool \<Rightarrow> dict \<Rightarrow> dict" where
  "selected namespace lowercase trim_namespace items =
     map (\<lambda>(k, v). (result_key namespace lowercase trim_namespace k, v))
       (filter (\<lambda>(k, v). startswith k namespace) items)"

section \<open>ConfigAttribute\<close>

text \<open>
  The descriptor holds the key and an optional converter, which may raise. The owning
  instance is given by its attribute \<^verbatim>\<open>config\<close>, a reference to a store. \<^verbatim>\<open>__get__\<close> with
  \<^verbatim>\<open>obj is None\<close> is the access on the class.
\<close>

record ConfigAttribute =
  attr_name :: string
  get_converter :: "(pyval \<Rightarrow> exn + pyval) option"

record owner =
  config :: addr

datatype attr_value =
    Descriptor ConfigAttribute
  | Value pyval

definition ConfigAttribute_get :: "heap \<Rightarrow> ConfigAttribute \<Rightarrow> owner option \<Rightarrow> exn + attr_value" where
  "ConfigAttribute_get h self obj =
     (case obj of
        None \<Rightarrow> Inr (Descriptor self)
      | Some ob \<Rightarrow>
          (case getitem h (config ob) (attr_name self) of
             Inl e \<Rightarrow> Inl e
           | Inr rv \<Rightarrow>
               (case get_converter self of
                  None \<Rightarrow> Inr (Value rv)
                | Some conv \<Rightarrow> (case conv rv of Inl e \<Rightarrow> Inl e | Inr rv' \<Rightarrow> Inr (Value rv')))))"

definition ConfigAttribute_set :: "heap \<Rightarrow> ConfigAttribute \<Rightarrow> owner \<Rightarrow> pyval \<Rightarrow> heap" where
  "ConfigAttribute_set h self obj v = setitem h (config obj) (attr_name self) v"

section \<open>An example environment\<close>

text \<open>
  The environment the examples below run in: two environment variables, a JSON file, a
  Python configuration file, a directory and a file that cannot be read; a parser that
  knows the JSON file's content, and a run of the Python file that binds \<^verbatim>\<open>DEBUG\<close> and
  does nothing else (\<^verbatim>\<open>exec\<close> adds \<^verbatim>\<open>__builtins__\<close> to the namespace; \<^verbatim>\<open>dir\<close> of the module
  lists its names sorted).
\<close>

definition example_world :: world where
  \<open>example_world =
     \<lparr>environ = [''APP_SETTINGS'' \<mapsto> ''settings.py'', ''EMPTY_VAR'' \<mapsto> ''''],
      files = [''config.json'' \<mapsto> RegularFile ''{"a": 1}'',
               ''settings.py'' \<mapsto> RegularFile ''DEBUG = True'',
               ''conf.d'' \<mapsto> Directory,
               ''locked.json'' \<mapsto> Unreadable EACCES ''Permission denied'']\<rparr>\<close>

definition example_json_loads :: "string \<Rightarrow> exn + mapping_arg" where
  \<open>example_json_loads content =
     (if content = ''{"a": 1}'' then Inr (HasItems [(''a'', PyInt 1)])
      else Inl (OtherError ''JSONDecodeError''))\<close>

definition example_exec_code :: "string \<Rightarrow> string \<Rightarrow> dict \<Rightarrow> pyobject effect" where
  "example_exec_code source filename d h =
     (if source = ''DEBUG = True''
      then (Inr (data_object
                  (sort_key fst
                     (stored d [(''__builtins__'', PyOpaque ''builtins''), (''DEBUG'', PyBool True)]))),
            h)
      else (Inl (OtherError ''SyntaxError''), h))"

definition example_converter :: "pyval \<Rightarrow> exn + pyval" where
  "example_converter v =
     (case v of PyBool b \<Rightarrow> Inr (PyInt (if b then 1 else 0)) | _ \<Rightarrow> Inl (TypeError ''not a bool''))"

text \<open>
  An ordinary class with the two fields of the round-trip example,
  \<^verbatim>\<open>class Settings: A = 1; B = "x"\<close>, as \<^verbatim>\<open>dir\<close> and \<^verbatim>\<open>getattr\<close> show it (CPython 3.11):
  besides \<^verbatim>\<open>A\<close> and \<^verbatim>\<open>B\<close>, the names every class has.
\<close>

definition example_class_attrs :: dict where
  "example_class_attrs =
     [(''A'', PyInt 1), (''B'', PyStr ''x''),
      (''__class__'', PyOpaque ''type''), (''__delattr__'', PyOpaque ''slot wrapper''),
      (''__dict__'', PyOpaque ''mappingproxy''), (''__dir__'', PyOpaque ''method''),
      (''__doc__'', PyNone), (''__eq__'', PyOpaque ''slot wrapper''),
      (''__format__'', PyOpaque ''method''), (''__ge__'', PyOpaque ''slot wrapper''),
      (''__getattribute__'', PyOpaque ''slot wrapper''), (''__getstate__'', PyOpaque ''method''),
      (''__gt__'', PyOpaque ''slot wrapper''), (''__hash__'', PyOpaque ''slot wrapper''),
      (''__init__'', PyOpaque ''slot wrapper''), (''__init_subclass__'', PyOpaque ''method''),
      (''__le__'', PyOpaque ''slot wrapper''), (''__lt__'', PyOpaque ''slot wrapper''),
      (''__module__'', PyStr ''__main__''), (''__ne__'', PyOpaque ''slot wrapper''),
      (''__new__'', PyOpaque ''method''), (''__reduce__'', PyOpaque ''method''),
      (''__reduce_ex__'', PyOpaque ''method''), (''__repr__'', PyOpaque ''slot wrapper''),
      (''__setattr__'', PyOpaque ''slot wrapper''), (''__sizeof__'', PyOpaque ''method''),
      (''__str__'', PyOpaque ''slot wrapper''), (''__subclasshook__'', PyOpaque ''method''),
      (''__weakref__'', PyOpaque ''getset descriptor'')]"

definition example_class :: pyobject where
  "example_class = data_object example_class_attrs"

section \<open>How the loops act on the heap\<close>

lemma length_setitem: "length (setitem h a key v) = length h"
  by (simp add: setitem_def)

lemma assign_pairs_stored:
  "self < length h \<Longrightarrow> assign_pairs h self ps = h[self := stored (h ! self) ps]"
proof (induction ps arbitrary: h)
  case Nil
  then show ?case by simp
next
  case (Cons p ps)
  obtain key v where p: "p = (key, v)" by (cases p)
  have "self < length (setitem h self key v)"
    using Cons.prems by (simp add: length_setitem)
  from Cons.IH [OF this] show ?case
    using Cons.prems by (simp add: p setitem_def)
qed

lemma stored_append: "stored d (ps @ qs) = stored (stored d ps) qs"
  by (induction ps arbitrary: d) auto

lemma map_of_stored:
  "map_of (stored d ps) key = (case map_of (rev ps) key of Some v \<Rightarrow> Some v | None \<Rightarrow> map_of d key)"
proof (induction ps arbitrary: d)
  case Nil
  then show ?case by simp
next
  case (Cons p ps)
  obtain k v where p: "p = (k, v)" by (cases p)
  show ?case
    by (simp add: p Cons.IH update_conv' map_add_def split: option.splits)
qed

lemma distinct_stored: "distinct (map fst d) \<Longrightarrow> distinct (map fst (stored d ps))"
  by (induction ps arbitrary: d) (auto simp: distinct_update)

lemma map_of_rev_distinct: "distinct (map fst ps) \<Longrightarrow> map_of (rev ps) = map_of ps"
  by (rule map_of_inject_set [THEN iffD2]) (simp_all add: rev_map [symmetric])

lemma map_of_stored_Nil:
  assumes "distinct (map fst ps)"
  shows "map_of (stored [] ps) = map_of ps"
  by (rule ext) (simp add: map_of_stored map_of_rev_distinct [OF assms] split: option.splits)

lemma stored_Nil_distinct:
  assumes "distinct (map fst ps)"
  shows "distinct (map fst (stored [] ps)) \<and> set (stored [] ps) = set ps"
proof -
  have "distinct (map fst (stored [] ps))" by (simp add: distinct_stored)
  with assms map_of_stored_Nil [OF assms] show ?thesis
    by (simp add: map_of_inject_set)
qed

lemma assign_mappings_frame:
  "self < length h \<Longrightarrow> \<exists>d. snd (assign_mappings h self ms) = h[self := d]"
proof (induction ms arbitrary: h)
  case Nil
  have "snd (assign_mappings h self []) = h[self := h ! self]" by simp
  then show ?case ..
next
  case (Cons m ms)
  obtain ps err where m: "m = (ps, err)" by (cases m)
  let ?h = "h[self := stored (h ! self) ps]"
  show ?case
  proof (cases err)
    case (Some e)
    have "snd (assign_mappings h self (m # ms)) = ?h"
      using Cons.prems by (simp add: m Some assign_pairs_stored)
    then show ?thesis ..
  next
    case None
    have "self < length ?h" using Cons.prems by simp
    from Cons.IH [OF this] obtain d where "snd (assign_mappings ?h self ms) = ?h[self := d]" ..
    then have "snd (assign_mappings h self (m # ms)) = h[self := d]"
      using Cons.prems by (simp add: m None assign_pairs_stored)
    then show ?thesis ..
  qed
qed

lemma merge_mappings_ok:
  "self < length h \<Longrightarrow>
   merge_mappings h self [(ps, None), (qs, None)] =
     (Inr (PyBool True), h[self := stored (h ! self) (ps @ qs)])"
  by (simp add: merge_mappings_def assign_pairs_stored stored_append)


lemma merge_mappings_frame:
  assumes "self < length h"
  shows "\<exists>d. snd (merge_mappings h self ms) = h[self := d]"
proof -
  from assign_mappings_frame [OF assms, of ms] obtain d
    where d: "snd (assign_mappings h self ms) = h[self := d]" ..
  obtain r h' where r: "assign_mappings h self ms = (r, h')" by (cases "assign_mappings h self ms")
  have "snd (merge_mappings h self ms) = h'"
    by (cases r) (simp_all add: merge_mappings_def r)
  with d r have "snd (merge_mappings h self ms) = h[self := d]" by simp
  then show ?thesis ..
qed

lemma from_mapping_frame:
  assumes "self < length h"
  shows "\<exists>d. snd (from_mapping h self mapping kwargs) = h[self := d]"
proof (cases "1 < length mapping")
  case True
  then have "snd (from_mapping h self mapping kwargs) = h[self := h ! self]"
    by (simp add: from_mapping_def)
  then show ?thesis ..
next
  case False
  then show ?thesis
    using merge_mappings_frame [OF assms] by (simp add: from_mapping_def)
qed


lemma from_object_loop_data:
  "from_object_loop h self (map (\<lambda>(key, v). (key, (\<lambda>h'. (Inr v, h')))) entries) =
     (Inr PyNone, assign_pairs h self entries)"
proof (induction entries arbitrary: h)
  case Nil
  then show ?case by simp
next
  case (Cons p entries)
  obtain key v where p: "p = (key, v)" by (cases p)
  show ?case by (simp add: p Cons.IH)
qed

lemma from_object_data:
  "from_object h self (data_object entries) = (Inr PyNone, assign_pairs h self entries)"
  by (simp add: from_object_def data_object_def from_object_loop_data)

lemma update_fresh: "key \<notin> fst ` set d \<Longrightarrow> AList.update key v d = d @ [(key, v)]"
  by (induction d) auto

lemma stored_distinct: "distinct (map fst (d @ ps)) \<Longrightarrow> stored d ps = d @ ps"
proof (induction ps arbitrary: d)
  case Nil
  then show ?case by simp
next
  case (Cons p ps)
  obtain key v where p: "p = (key, v)" by (cases p)
  from Cons.prems have fresh: "key \<notin> fst ` set d" by (auto simp: p)
  from Cons.prems have "distinct (map fst ((d @ [(key, v)]) @ ps))" by (auto simp: p)
  from Cons.IH [OF this] show ?case by (simp add: p update_fresh [OF fresh])
qed

lemma stored_Nil_id: "distinct (map fst ps) \<Longrightarrow> stored [] ps = ps"
  using stored_distinct [of "[]" ps] by simp

lemma selected_plain: "selected [] False False items = items"
  by (induction items) (auto simp: selected_def startswith_def result_key_def)

lemma distinct_example_class_attrs: "distinct (map fst example_class_attrs)"
  by (simp add: example_class_attrs_def)

lemma get_namespace_loop_stored:
  "rv < length h \<Longrightarrow>
   get_namespace_loop h rv ns lc tr items = h[rv := stored (h ! rv) (selected ns lc tr items)]"
proof (induction items arbitrary: h)
  case Nil
  then show ?case by (simp add: selected_def)
next
  case (Cons p items)
  obtain k v where p: "p = (k, v)" by (cases p)
  show ?case
  proof (cases "startswith k ns")
    case False
    then show ?thesis
      using Cons by (simp add: p selected_def)
  next
    case True
    have lt: "rv < length (setitem h rv (result_key ns lc tr k) v)"
      using Cons.prems by (simp add: setitem_def)
    show ?thesis
      using True Cons.prems Cons.IH [OF lt]
      by (simp add: p selected_def result_key_def Let_def setitem_def)
  qed
qed

lemma get_namespace_selected:
  assumes "self < length h"
  shows "get_namespace h self ns lc tr = (length h, h @ [stored [] (selected ns lc tr (h ! self))])"
  using assms by (simp add: get_namespace_def new_dict_def get_namespace_loop_stored nth_append)

lemma image_store_selected:
  assumes dist: "distinct (map fst items)"
    and items: "set items = {(''IMAGE_STORE_TYPE'', PyStr ''fs''),
                  (''IMAGE_STORE_PATH'', PyStr ''/var/app/images''), (''OTHER_KEY'', PyStr ''x'')}"
  shows "distinct (map fst (selected ''IMAGE_STORE_'' True True items)) \<and>
         set (selected ''IMAGE_STORE_'' True True items) =
           {(''type'', PyStr ''fs''), (''path'', PyStr ''/var/app/images'')}"
proof -
  let ?P = "\<lambda>(k, v::pyval). startswith k ''IMAGE_STORE_''"
  let ?rk = "result_key ''IMAGE_STORE_'' True True"
  have rk_type: "?rk ''IMAGE_STORE_TYPE'' = ''type''" by code_simp
  have rk_path: "?rk ''IMAGE_STORE_PATH'' = ''path''" by code_simp
  have sel: "set (filter ?P items) =
      {(''IMAGE_STORE_TYPE'', PyStr ''fs''), (''IMAGE_STORE_PATH'', PyStr ''/var/app/images'')}"
    by (auto simp: items startswith_def)
  have s: "set (selected ''IMAGE_STORE_'' True True items) =
           {(''type'', PyStr ''fs''), (''path'', PyStr ''/var/app/images'')}"
    unfolding selected_def set_map sel by (simp add: rk_type rk_path)
  have fst_sel: "map fst (selected ''IMAGE_STORE_'' True True items) = map (?rk \<circ> fst) (filter ?P items)"
    by (simp add: selected_def comp_def case_prod_unfold)
  have "distinct (filter ?P items)"
    using dist by (simp add: distinct_map)
  moreover have "inj_on (?rk \<circ> fst) (set (filter ?P items))"
    unfolding sel by (simp add: rk_type rk_path)
  ultimately have "distinct (map fst (selected ''IMAGE_STORE_'' True True items))"
    unfolding fst_sel by (simp add: distinct_map)
  with s show ?thesis by simp
qed

lemma open_read_regular: "files w p = Some (RegularFile c) \<Longrightarrow> open_read w p = Inr c"
  by (simp add: open_read_def)

lemma load_failed_frame: "snd (load_failed e silent h) = h"
  by (cases e) (simp_all add: load_failed_def)

lemma from_json_frame: "take (length h) (snd (from_json json_loads w h filepath silent)) = h"
proof (cases "path_exists w filepath")
  case False
  then show ?thesis by (simp add: from_json_def)
next
  case True
  define r where "r = (case open_read w filepath of Inl e \<Rightarrow> Inl e | Inr content \<Rightarrow> json_loads content)"
  show ?thesis
  proof (cases r)
    case (Inl e)
    then have "from_json json_loads w h filepath silent = load_failed e silent h"
      using True by (simp add: from_json_def r_def [symmetric])
    then show ?thesis by (simp add: load_failed_frame)
  next
    case (Inr obj)
    have lt: "length h < length (h @ [[]])" by simp
    obtain res h2 where fm: "from_mapping (h @ [[]]) (length h) [obj] [] = (res, h2)"
      by (cases "from_mapping (h @ [[]]) (length h) [obj] []")
    from from_mapping_frame [OF lt, of "[obj]" "[]"] fm obtain d
      where h2: "h2 = (h @ [[]])[length h := d]" by auto
    have "snd (from_json json_loads w h filepath silent) = h2"
      using True Inr fm
      by (cases res) (simp_all add: from_json_def r_def [symmetric] Config_init_def new_dict_def)
    then show ?thesis by (simp add: h2)
  qed
qed

lemma load_failed_no_reference: "load_failed e silent h \<noteq> (Inr (PyRef r), h')"
  by (cases e) (simp_all add: load_failed_def)

lemma from_json_reference:
  assumes "from_json json_loads w h filepath silent = (Inr (PyRef r), h')"
  shows "r = length h \<and> (\<exists>d. h' = h @ [d])"
proof (cases "path_exists w filepath")
  case False
  with assms show ?thesis by (simp add: from_json_def)
next
  case True
  define r0 where "r0 = (case open_read w filepath of Inl e \<Rightarrow> Inl e | Inr content \<Rightarrow> json_loads content)"
  show ?thesis
  proof (cases r0)
    case (Inl e)
    then have "from_json json_loads w h filepath silent = load_failed e silent h"
      using True by (simp add: from_json_def r0_def [symmetric])
    with assms show ?thesis by (simp add: load_failed_no_reference)
  next
    case (Inr obj)
    have lt: "length h < length (h @ [[]])" by simp
    obtain res h2 where fm: "from_mapping (h @ [[]]) (length h) [obj] [] = (res, h2)"
      by (cases "from_mapping (h @ [[]]) (length h) [obj] []")
    from from_mapping_frame [OF lt, of "[obj]" "[]"] fm obtain d
      where h2: "h2 = (h @ [[]])[length h := d]" by auto
    have "from_json json_loads w h filepath silent =
            (case res of Inl e \<Rightarrow> (Inl e, h2) | Inr x \<Rightarrow> (Inr (PyRef (length h)), h2))"
      using True Inr fm
      by (cases res) (simp_all add: from_json_def r0_def [symmetric] Config_init_def new_dict_def)
    with assms have "r = length h \<and> h' = h2"
      by (cases res) simp_all
    then show ?thesis by (simp add: h2)
  qed
qed

text \<open>
  What the file loaders do when the file cannot be read: the guard raises for a path
  that does not exist, whatever \<open>silent\<close> is; a directory gives \<^verbatim>\<open>False\<close> when \<open>silent\<close> is
  true and the \<^verbatim>\<open>IOError\<close> otherwise; a failure with another \<open>errno\<close> is raised again.
\<close>

lemma file_loaders_failure_policy:
  "(files w filepath = None \<longrightarrow>
      from_json json_loads w h filepath silent = (Inl (Exception filepath), h) \<and>
      from_pyfile exec_code w h filepath silent = (Inl (Exception filepath), h)) \<and>
   (files w dirpath = Some Directory \<longrightarrow>
      from_json json_loads w h dirpath True = (Inr (PyBool False), h) \<and>
      from_pyfile exec_code w h dirpath True = (Inr (PyBool False), h) \<and>
      from_json json_loads w h dirpath False =
        (Inl (IOError EISDIR ''Unable to load configuration file (Is a directory)''), h) \<and>
      from_pyfile exec_code w h dirpath False =
        (Inl (IOError EISDIR ''Unable to load configuration file (Is a directory)''), h)) \<and>
   (files w badpath = Some (Unreadable errno strerror) \<and> errno \<noteq> ENOENT \<and> errno \<noteq> EISDIR \<longrightarrow>
      from_json json_loads w h badpath silent =
        (Inl (IOError errno (''Unable to load configuration file ('' @ strerror @ '')'')), h) \<and>
      from_pyfile exec_code w h badpath silent =
        (Inl (IOError errno (''Unable to load configuration file ('' @ strerror @ '')'')), h))"
  by (simp add: from_json_def from_pyfile_def path_exists_def open_read_def load_failed_def)

section \<open>The claims\<close>

text \<open>
  C1, as amended. \<^verbatim>\<open>from_json\<close> and \<^verbatim>\<open>from_pyfile\<close> are class methods: a successful call
  does not write the file's bindings into the store it is invoked through, it returns a
  reference to a new store, and every key/value the file binds is present in that new
  store. For \<^verbatim>\<open>from_json\<close>: on a readable file holding a JSON object the new store holds
  exactly the object's entries, and after any call that returns a store every store
  that existed before has every key at its previous value. For \<^verbatim>\<open>from_pyfile\<close>: on a
  readable file whose run leaves a module of plain data (no module-level \<^verbatim>\<open>__dir__\<close>), the
  new store holds exactly the module's names with their values, and the stores that
  existed before are as the file's own code left them.
\<close>

theorem file_loaders_return_fresh_store:
  "(files w filepath = Some (RegularFile content) \<and> json_loads content = Inr (HasItems ps) \<and>
    distinct (map fst ps) \<longrightarrow>
      from_json json_loads w h filepath silent = (Inr (PyRef (length h)), h @ [ps])) \<and>
   (from_json json_loads w h filepath silent = (Inr (PyRef r), h') \<longrightarrow>
      r = length h \<and> length h' = Suc (length h) \<and> take (length h) h' = h) \<and>
   (files w pyfile = Some (RegularFile source) \<and>
    exec_code source pyfile (AList.update ''__file__'' (PyStr pyfile) (module_new ''config'')) h =
      (Inr (data_object ns), h1) \<and>
    distinct (map fst ns) \<longrightarrow>
      from_pyfile exec_code w h pyfile silent = (Inr (PyRef (length h1)), h1 @ [ns]))"
proof (intro conjI impI)
  assume a: "files w filepath = Some (RegularFile content) \<and> json_loads content = Inr (HasItems ps) \<and>
    distinct (map fst ps)"
  have lt: "length h < length (h @ [[]])" by simp
  show "from_json json_loads w h filepath silent = (Inr (PyRef (length h)), h @ [ps])"
    using a
    by (simp add: from_json_def path_exists_def open_read_regular Config_init_def new_dict_def
        from_mapping_def merge_mappings_ok [OF lt] stored_Nil_id)
next
  assume "from_json json_loads w h filepath silent = (Inr (PyRef r), h')"
  from from_json_reference [OF this] obtain d where "r = length h" and "h' = h @ [d]" by blast
  then show "r = length h" and "length h' = Suc (length h)" and "take (length h) h' = h" by simp_all
next
  assume a: "files w pyfile = Some (RegularFile source) \<and>
    exec_code source pyfile (AList.update ''__file__'' (PyStr pyfile) (module_new ''config'')) h =
      (Inr (data_object ns), h1) \<and>
    distinct (map fst ns)"
  have lt: "length h1 < length (h1 @ [[]])" by simp
  have "assign_pairs (h1 @ [[]]) (length h1) ns = h1 @ [ns]"
    using a by (simp add: assign_pairs_stored [OF lt] stored_Nil_id)
  then show "from_pyfile exec_code w h pyfile silent = (Inr (PyRef (length h1)), h1 @ [ns])"
    using a
    by (simp add: from_pyfile_def path_exists_def open_read_regular Config_init_def new_dict_def
        from_object_data)
qed

theorem file_loaders_return_fresh_store_witness:
  \<open>files example_world ''config.json'' = Some (RegularFile ''{"a": 1}'') \<and>
   example_json_loads ''{"a": 1}'' = Inr (HasItems [(''a'', PyInt 1)]) \<and>
   distinct (map fst [(''a'', PyInt 1)]) \<and>
   from_json example_json_loads example_world [[(''b'', PyInt 2)]] ''config.json'' False =
     (Inr (PyRef 1), [[(''b'', PyInt 2)], [(''a'', PyInt 1)]]) \<and>
   take 1 [[(''b'', PyInt 2)], [(''a'', PyInt 1)]] = [[(''b'', PyInt 2)]] \<and>
   files example_world ''settings.py'' = Some (RegularFile ''DEBUG = True'') \<and>
   from_pyfile example_exec_code example_world [[(''b'', PyInt 2)]] ''settings.py'' False =
     (Inr (PyRef 1),
      [[(''b'', PyInt 2)],
       [(''DEBUG'', PyBool True), (''__builtins__'', PyOpaque ''builtins''), (''__doc__'', PyNone),
        (''__file__'', PyStr ''settings.py''), (''__loader__'', PyNone),
        (''__name__'', PyStr ''config''), (''__package__'', PyNone), (''__spec__'', PyNone)]])\<close>
proof -
  let ?h = "[[(''b'', PyInt 2)]]"
  let ?ns = "[(''DEBUG'', PyBool True), (''__builtins__'', PyOpaque ''builtins''), (''__doc__'', PyNone),
        (''__file__'', PyStr ''settings.py''), (''__loader__'', PyNone),
        (''__name__'', PyStr ''config''), (''__package__'', PyNone), (''__spec__'', PyNone)]"
  have a: \<open>files example_world ''config.json'' = Some (RegularFile ''{"a": 1}'') \<and>
     example_json_loads ''{"a": 1}'' = Inr (HasItems [(''a'', PyInt 1)]) \<and>
     distinct (map fst [(''a'', PyInt 1)])\<close>
    by (simp add: example_world_def example_json_loads_def)
  have s: "sort_key fst
       (stored (AList.update ''__file__'' (PyStr ''settings.py'') (module_new ''config''))
          [(''__builtins__'', PyOpaque ''builtins''), (''DEBUG'', PyBool True)]) = ?ns"
    by code_simp
  have b: "files example_world ''settings.py'' = Some (RegularFile ''DEBUG = True'') \<and>
     example_exec_code ''DEBUG = True'' ''settings.py''
       (AList.update ''__file__'' (PyStr ''settings.py'') (module_new ''config'')) ?h =
       (Inr (data_object ?ns), ?h) \<and>
     distinct (map fst ?ns)"
    unfolding example_exec_code_def s by (simp add: example_world_def)
  note inst = file_loaders_return_fresh_store
    [where w = example_world and filepath = "''config.json''" and json_loads = example_json_loads
       and content = \<open>''{"a": 1}''\<close>
       and ps = "[(''a'', PyInt 1)]" and h = ?h and silent = False
       and r = 1 and h' = "[[(''b'', PyInt 2)], [(''a'', PyInt 1)]]"
       and pyfile = "''settings.py''" and source = "''DEBUG = True''"
       and exec_code = example_exec_code and ns = ?ns and ?h1.0 = ?h]
  from inst a b show ?thesis by simp
qed

text \<open>
  The claim as stated fails: called through a store that is empty, on a file binding
  \<^verbatim>\<open>a\<close>, \<^verbatim>\<open>from_json\<close> succeeds, and the store (address 0) still has no key \<^verbatim>\<open>a\<close>.
\<close>

theorem from_json_in_place_counterexample:
  "from_json example_json_loads example_world [[]] ''config.json'' False =
     (Inr (PyRef 1), [[], [(''a'', PyInt 1)]]) \<and>
   getitem [[], [(''a'', PyInt 1)]] 0 ''a'' = Inl (KeyError ''a'')"
  by code_simp

text \<open>
  C2. The claim has both file loaders return \<^verbatim>\<open>False\<close> when \<open>silent\<close> is true and the path
  does not exist, as the docstring of \<open>silent\<close> says and as the handler's \<^verbatim>\<open>ENOENT\<close> case
  would do. The code does not: the guard in front of the \<^verbatim>\<open>try\<close> raises \<^verbatim>\<open>Exception\<close> for
  the missing path, \<open>silent\<close> or not. On a directory, which passes the guard, \<open>silent\<close>
  gives \<^verbatim>\<open>False\<close>.
\<close>

theorem silent_missing_file_raises:
  "files example_world ''missing.json'' = None \<and>
   from_json example_json_loads example_world [] ''missing.json'' True =
     (Inl (Exception ''missing.json''), []) \<and>
   from_pyfile example_exec_code example_world [] ''missing.json'' True =
     (Inl (Exception ''missing.json''), []) \<and>
   from_json example_json_loads example_world [] ''conf.d'' True = (Inr (PyBool False), []) \<and>
   from_pyfile example_exec_code example_world [] ''conf.d'' True = (Inr (PyBool False), [])"
  by code_simp

text \<open>
  C3. \<^verbatim>\<open>from_envvar\<close> on an environment variable that is unset or empty raises
  \<^verbatim>\<open>RuntimeError\<close> (the specification's MissingEnvVarError) when \<open>silent\<close> is false, and
  returns \<^verbatim>\<open>False\<close> when \<open>silent\<close> is true; either way the heap, and so every store, is
  as it was.
\<close>

theorem from_envvar_missing_variable:
  assumes "environ w variable_name = None \<or> environ w variable_name = Some ''''"
  shows "from_envvar w h variable_name False = (Inl (RuntimeError variable_name), h) \<and>
         from_envvar w h variable_name True = (Inr (PyBool False), h)"
  using assms by (auto simp: from_envvar_def)

theorem from_envvar_missing_variable_witness:
  "(environ example_world ''MISSING_VAR'' = None \<or> environ example_world ''MISSING_VAR'' = Some '''') \<and>
   from_envvar example_world [[(''DEBUG'', PyBool True)]] ''MISSING_VAR'' False =
     (Inl (RuntimeError ''MISSING_VAR''), [[(''DEBUG'', PyBool True)]]) \<and>
   from_envvar example_world [[(''DEBUG'', PyBool True)]] ''MISSING_VAR'' True =
     (Inr (PyBool False), [[(''DEBUG'', PyBool True)]])"
proof -
  have a: "environ example_world ''MISSING_VAR'' = None \<or> environ example_world ''MISSING_VAR'' = Some ''''"
    by (simp add: example_world_def)
  from from_envvar_missing_variable [OF a, of "[[(''DEBUG'', PyBool True)]]"] a
  show ?thesis by simp
qed

text \<open>
  C4. The claim is that \<^verbatim>\<open>from_envvar\<close> on a variable set to a path behaves as
  \<^verbatim>\<open>from_pyfile\<close> on that path. The code does not: with \<^verbatim>\<open>APP_SETTINGS\<close> naming a
  readable configuration file, \<^verbatim>\<open>from_envvar\<close> raises \<^verbatim>\<open>NameError\<close>, while \<^verbatim>\<open>from_pyfile\<close>
  on the same path returns a store holding the file's bindings.
\<close>

theorem from_envvar_set_variable_raises_NameError:
  "environ example_world ''APP_SETTINGS'' = Some ''settings.py'' \<and>
   from_envvar example_world [] ''APP_SETTINGS'' False = (Inl (NameError ''cls''), []) \<and>
   from_pyfile example_exec_code example_world [] ''settings.py'' False =
     (Inr (PyRef 0),
      [[(''DEBUG'', PyBool True), (''__builtins__'', PyOpaque ''builtins''), (''__doc__'', PyNone),
        (''__file__'', PyStr ''settings.py''), (''__loader__'', PyNone),
        (''__name__'', PyStr ''config''), (''__package__'', PyNone), (''__spec__'', PyNone)]])"
  by code_simp

text \<open>
  C5, as amended. Round trip: \<^verbatim>\<open>from_object\<close> on an empty store, for an object of plain
  data, leaves the store holding exactly the names \<^verbatim>\<open>dir\<close> lists for the object, each
  with its \<^verbatim>\<open>getattr\<close> value, and \<^verbatim>\<open>get_namespace\<close> with the empty prefix, \<open>lowercase\<close>
  false and \<open>trim_namespace\<close> false then returns a new dictionary holding exactly these
  entries: no key is missing, none is added, no value is changed. For an object of
  which \<^verbatim>\<open>dir\<close> lists only \<^verbatim>\<open>A\<close> and \<^verbatim>\<open>B\<close> this is \<^verbatim>\<open>{A: 1, B: "x"}\<close>; for an ordinary object
  with these two fields it is these two entries together with one for every other name
  \<^verbatim>\<open>dir\<close> lists.
\<close>

theorem from_object_get_namespace_roundtrip:
  assumes "self < length h" and "h ! self = []" and "distinct (map fst entries)"
  shows "from_object h self (data_object entries) = (Inr PyNone, h[self := entries]) \<and>
         get_namespace (h[self := entries]) self [] False False =
           (length h, h[self := entries] @ [entries])"
proof -
  have "assign_pairs h self entries = h[self := entries]"
    using assms by (simp add: assign_pairs_stored stored_Nil_id)
  then have "from_object h self (data_object entries) = (Inr PyNone, h[self := entries])"
    by (simp add: from_object_data)
  moreover have "get_namespace (h[self := entries]) self [] False False =
           (length h, h[self := entries] @ [entries])"
    using assms by (simp add: get_namespace_selected selected_plain stored_Nil_id)
  ultimately show ?thesis by simp
qed

theorem from_object_get_namespace_roundtrip_witness:
  "(0::nat) < length [[] :: dict] \<and> [[] :: dict] ! 0 = [] \<and>
   distinct (map fst [(''A'', PyInt 1), (''B'', PyStr ''x'')]) \<and>
   from_object [[]] 0 (data_object [(''A'', PyInt 1), (''B'', PyStr ''x'')]) =
     (Inr PyNone, [[(''A'', PyInt 1), (''B'', PyStr ''x'')]]) \<and>
   get_namespace [[(''A'', PyInt 1), (''B'', PyStr ''x'')]] 0 [] False False =
     (1, [[(''A'', PyInt 1), (''B'', PyStr ''x'')], [(''A'', PyInt 1), (''B'', PyStr ''x'')]])"
  using from_object_get_namespace_roundtrip [of 0 "[[]]" "[(''A'', PyInt 1), (''B'', PyStr ''x'')]"]
  by simp

text \<open>
  The claim as stated fails for an ordinary object: for the class with the fields
  \<^verbatim>\<open>A = 1\<close> and \<^verbatim>\<open>B = "x"\<close> the round trip returns a dictionary of 29 entries, among them
  \<^verbatim>\<open>__class__\<close> and \<^verbatim>\<open>__module__\<close>, not the two entries of \<^verbatim>\<open>{A: 1, B: "x"}\<close>.
\<close>

theorem from_object_ordinary_class_counterexample:
  "from_object [[]] 0 example_class = (Inr PyNone, [example_class_attrs]) \<and>
   get_namespace [example_class_attrs] 0 [] False False = (1, [example_class_attrs, example_class_attrs]) \<and>
   length example_class_attrs = 29 \<and>
   getitem [example_class_attrs, example_class_attrs] 1 ''A'' = Inr (PyInt 1) \<and>
   getitem [example_class_attrs, example_class_attrs] 1 ''B'' = Inr (PyStr ''x'') \<and>
   getitem [example_class_attrs, example_class_attrs] 1 ''__class__'' = Inr (PyOpaque ''type'') \<and>
   getitem [example_class_attrs, example_class_attrs] 1 ''__module__'' = Inr (PyStr ''__main__'')"
proof -
  note d = distinct_example_class_attrs
  have a: "from_object [[]] 0 example_class = (Inr PyNone, [example_class_attrs])"
    by (simp add: example_class_def from_object_data assign_pairs_stored stored_Nil_id [OF d])
  have b: "get_namespace [example_class_attrs] 0 [] False False =
             (1, [example_class_attrs, example_class_attrs])"
    by (simp add: get_namespace_selected selected_plain stored_Nil_id [OF d])
  have c: "length example_class_attrs = 29"
    by (simp add: example_class_attrs_def)
  have e: "map_of example_class_attrs ''A'' = Some (PyInt 1)"
    "map_of example_class_attrs ''B'' = Some (PyStr ''x'')"
    "map_of example_class_attrs ''__class__'' = Some (PyOpaque ''type'')"
    "map_of example_class_attrs ''__module__'' = Some (PyStr ''__main__'')"
    by (simp_all add: example_class_attrs_def)
  from a b c e show ?thesis by (simp add: getitem_def)
qed

text \<open>
  C6. \<^verbatim>\<open>from_mapping\<close> called with two or more positional arguments raises \<^verbatim>\<open>TypeError\<close>
  (the specification's TooManyArgumentsError), whatever the arguments and the keyword
  overrides hold, and the heap after the call is the heap before it: no entry was
  inserted into the store, or into any other dictionary.
\<close>

theorem from_mapping_too_many_arguments:
  assumes "2 \<le> length mapping"
  shows "from_mapping h self mapping kwargs =
           (Inl (TypeError ''expected at most 1 positional argument''), h)"
  using assms by (simp add: from_mapping_def)

theorem from_mapping_too_many_arguments_witness:
  "2 \<le> length [HasItems [(''A'', PyInt 1)], NoItems [] None] \<and>
   from_mapping [[(''K'', PyStr ''v'')]] 0 [HasItems [(''A'', PyInt 1)], NoItems [] None] [(''B'', PyInt 2)] =
     (Inl (TypeError ''expected at most 1 positional argument''), [[(''K'', PyStr ''v'')]])"
  using from_mapping_too_many_arguments
    [of "[HasItems [(''A'', PyInt 1)], NoItems [] None]" "[[(''K'', PyStr ''v'')]]" 0 "[(''B'', PyInt 2)]"]
  by simp



text \<open>
  C8. On a store holding exactly \<^verbatim>\<open>IMAGE_STORE_TYPE = "fs"\<close>,
  \<^verbatim>\<open>IMAGE_STORE_PATH = "/var/app/images"\<close> and \<^verbatim>\<open>OTHER_KEY = "x"\<close>, in any insertion order,
  \<^verbatim>\<open>get_namespace\<close> with the prefix \<^verbatim>\<open>IMAGE_STORE_\<close> and the default flags returns a new
  dictionary (an address not in use before; every existing dictionary is unchanged)
  whose entries are exactly \<^verbatim>\<open>type = "fs"\<close> and \<^verbatim>\<open>path = "/var/app/images"\<close>. The two are
  independent: storing into the source store leaves the result as it is, and storing
  into the result leaves the source store as it is.
\<close>

theorem get_namespace_image_store:
  assumes "self < length h"
    and "distinct (map fst (h ! self))"
    and "set (h ! self) = {(''IMAGE_STORE_TYPE'', PyStr ''fs''),
            (''IMAGE_STORE_PATH'', PyStr ''/var/app/images''), (''OTHER_KEY'', PyStr ''x'')}"
  shows "\<exists>d. get_namespace h self ''IMAGE_STORE_'' True True = (length h, h @ [d]) \<and>
             distinct (map fst d) \<and>
             set d = {(''type'', PyStr ''fs''), (''path'', PyStr ''/var/app/images'')} \<and>
             (\<forall>key v. setitem (h @ [d]) self key v ! length h = d) \<and>
             (\<forall>key v. setitem (h @ [d]) (length h) key v ! self = h ! self)"
proof -
  let ?d = "stored [] (selected ''IMAGE_STORE_'' True True (h ! self))"
  note sel = image_store_selected [OF assms(2,3)]
  have "get_namespace h self ''IMAGE_STORE_'' True True = (length h, h @ [?d])"
    using assms(1) by (rule get_namespace_selected)
  moreover have "distinct (map fst ?d) \<and>
      set ?d = {(''type'', PyStr ''fs''), (''path'', PyStr ''/var/app/images'')}"
    using stored_Nil_distinct [of "selected ''IMAGE_STORE_'' True True (h ! self)"] sel by simp
  moreover have "\<forall>key v. setitem (h @ [?d]) self key v ! length h = ?d"
    using assms(1) by (simp add: setitem_def nth_append)
  moreover have "\<forall>key v. setitem (h @ [?d]) (length h) key v ! self = h ! self"
    using assms(1) by (simp add: setitem_def nth_append)
  ultimately show ?thesis by blast
qed

theorem get_namespace_image_store_witness:
  "0 < length [[(''IMAGE_STORE_TYPE'', PyStr ''fs''),
         (''IMAGE_STORE_PATH'', PyStr ''/var/app/images''), (''OTHER_KEY'', PyStr ''x'')]] \<and>
   distinct (map fst ([[(''IMAGE_STORE_TYPE'', PyStr ''fs''),
         (''IMAGE_STORE_PATH'', PyStr ''/var/app/images''), (''OTHER_KEY'', PyStr ''x'')]] ! 0)) \<and>
   (\<exists>d. get_namespace [[(''IMAGE_STORE_TYPE'', PyStr ''fs''),
         (''IMAGE_STORE_PATH'', PyStr ''/var/app/images''), (''OTHER_KEY'', PyStr ''x'')]] 0
           ''IMAGE_STORE_'' True True =
         (1, [[(''IMAGE_STORE_TYPE'', PyStr ''fs''),
         (''IMAGE_STORE_PATH'', PyStr ''/var/app/images''), (''OTHER_KEY'', PyStr ''x'')], d]) \<and>
        set d = {(''type'', PyStr ''fs''), (''path'', PyStr ''/var/app/images'')})"
proof -
  let ?h = "[[(''IMAGE_STORE_TYPE'', PyStr ''fs''),
         (''IMAGE_STORE_PATH'', PyStr ''/var/app/images''), (''OTHER_KEY'', PyStr ''x'')]]"
  have a: "0 < length ?h" by simp
  have b: "distinct (map fst (?h ! 0))" by simp
  have c: "set (?h ! 0) = {(''IMAGE_STORE_TYPE'', PyStr ''fs''),
            (''IMAGE_STORE_PATH'', PyStr ''/var/app/images''), (''OTHER_KEY'', PyStr ''x'')}" by simp
  from get_namespace_image_store [OF a b c] a b show ?thesis by auto
qed

text \<open>
  C9. For a \<^verbatim>\<open>ConfigAttribute\<close> bound to the key \<^verbatim>\<open>DEBUG\<close>, with or without a converter,
  on an instance whose \<^verbatim>\<open>config\<close> is a store: reading while \<^verbatim>\<open>DEBUG\<close> is absent from the
  store raises \<^verbatim>\<open>KeyError\<close> (the specification's MissingKeyError); after writing \<^verbatim>\<open>True\<close>
  through the descriptor a direct lookup of \<^verbatim>\<open>DEBUG\<close> in the store gives \<^verbatim>\<open>True\<close>,
  unconverted; the access on the class, without an instance, gives the descriptor.
\<close>

theorem ConfigAttribute_forwards:
  assumes "attr_name d = ''DEBUG''" and "config obj < length h"
  shows "(map_of (h ! config obj) ''DEBUG'' = None \<longrightarrow>
            ConfigAttribute_get h d (Some obj) = Inl (KeyError ''DEBUG'')) \<and>
         getitem (ConfigAttribute_set h d obj (PyBool True)) (config obj) ''DEBUG'' = Inr (PyBool True) \<and>
         ConfigAttribute_get h d None = Inr (Descriptor d)"
  using assms
  by (simp add: ConfigAttribute_get_def ConfigAttribute_set_def getitem_def setitem_def update_conv')

theorem ConfigAttribute_forwards_witness:
  "attr_name \<lparr>attr_name = ''DEBUG'', get_converter = Some example_converter\<rparr> = ''DEBUG'' \<and>
   config \<lparr>config = 0\<rparr> < length [[(''OTHER'', PyInt 1)]] \<and>
   map_of ([[(''OTHER'', PyInt 1)]] ! config \<lparr>config = 0\<rparr>) ''DEBUG'' = None \<and>
   ConfigAttribute_get [[(''OTHER'', PyInt 1)]]
     \<lparr>attr_name = ''DEBUG'', get_converter = Some example_converter\<rparr>
     (Some \<lparr>config = 0\<rparr>) = Inl (KeyError ''DEBUG'') \<and>
   getitem
     (ConfigAttribute_set [[(''OTHER'', PyInt 1)]]
        \<lparr>attr_name = ''DEBUG'', get_converter = Some example_converter\<rparr>
        \<lparr>config = 0\<rparr> (PyBool True))
     (config \<lparr>config = 0\<rparr>) ''DEBUG'' = Inr (PyBool True)"
proof -
  let ?d = "\<lparr>attr_name = ''DEBUG'', get_converter = Some example_converter\<rparr>"
  have a: "attr_name ?d = ''DEBUG''" by simp
  have b: "config \<lparr>config = 0\<rparr> < length [[(''OTHER'', PyInt 1)]]" by simp
  have c: "map_of ([[(''OTHER'', PyInt 1)]] ! config \<lparr>config = 0\<rparr>) ''DEBUG'' = None" by simp
  from ConfigAttribute_forwards [OF a b] a b c show ?thesis by blast
qed

text \<open>
  C10. \<^verbatim>\<open>from_mapping\<close> with exactly one positional argument that has no \<^verbatim>\<open>items\<close>
  attribute iterates the argument itself as (key, value) pairs: when the iteration ends
  without raising, the store holds each pair stored in iteration order and then each
  keyword argument, every other dictionary is unchanged, and the call returns \<^verbatim>\<open>True\<close>.
\<close>

theorem from_mapping_iterable_of_pairs:
  assumes "self < length h"
  shows "from_mapping h self [NoItems ps None] kwargs =
           (Inr (PyBool True), h[self := stored (h ! self) (ps @ kwargs)]) \<and>
         map_of (stored (h ! self) (ps @ kwargs)) key =
           (case map_of (rev kwargs) key of
              Some v \<Rightarrow> Some v
            | None \<Rightarrow> (case map_of (rev ps) key of Some v \<Rightarrow> Some v | None \<Rightarrow> map_of (h ! self) key))"
  using assms
  by (simp add: from_mapping_def merge_mappings_ok map_of_stored map_add_def split: option.splits)

theorem from_mapping_iterable_of_pairs_witness:
  "(0::nat) < length [[(''log_level'', PyStr ''info'')]] \<and>
   from_mapping [[(''log_level'', PyStr ''info'')]] 0
     [NoItems [(''config_file'', PyStr ''config.json''), (''log_file'', PyStr ''''),
               (''log_level'', PyStr ''debug'')] None]
     [(''log_file'', PyStr ''app.log'')] =
   (Inr (PyBool True),
    [[(''log_level'', PyStr ''debug''), (''config_file'', PyStr ''config.json''),
      (''log_file'', PyStr ''app.log'')]])"
proof -
  have a: "(0::nat) < length [[(''log_level'', PyStr ''info'')]]" by simp
  from from_mapping_iterable_of_pairs [OF a, of
      "[(''config_file'', PyStr ''config.json''), (''log_file'', PyStr ''''), (''log_level'', PyStr ''debug'')]"
      "[(''log_file'', PyStr ''app.log'')]" "''log_level''"]
  show ?thesis by simp
qed

end

